theory Spec2Isabelle
  imports Complex_Main "HOL-Library.Multiset" "HOL-Library.Sublist"
begin

section \<open>Python exceptions and the exception translator\<close>

text \<open>
  Objects that the source hands to \<^verbatim>\<open>raise\<close>, or that are in flight as exceptions.
  \<^verbatim>\<open>HTTPException\<close> (fastapi) carries status code, detail and headers;
  \<^verbatim>\<open>SQLAlchemyError\<close> (sqlalchemy.exc) and the builtin exceptions carry their text.
  \<^verbatim>\<open>NotFoundErrorResponse\<close> and \<^verbatim>\<open>ErrorResponse\<close> are the classes of
  \<^verbatim>\<open>app/schemas/base_schemas.py\<close>: both are declared as subclasses of pydantic's
  \<^verbatim>\<open>BaseModel\<close> and carry a \<^verbatim>\<open>message\<close> field.
\<close>

datatype pyobj =
    HTTPException int string "(string \<times> string) list"
  | SQLAlchemyError string
  | NotFoundErrorResponse string
  | ErrorResponse string
  | ValueError string
  | TypeError string
  | AttributeError string
  | ZeroDivisionError string
  | OverflowError string
  | Exception string

datatype pyclass =
    CHTTPException
  | CSQLAlchemyError
  | CNotFoundErrorResponse
  | CErrorResponse
  | CValueError
  | CTypeError
  | CAttributeError
  | CZeroDivisionError
  | COverflowError
  | CException

fun class_of :: "pyobj \<Rightarrow> pyclass" where
  "class_of (HTTPException _ _ _) = CHTTPException"
| "class_of (SQLAlchemyError _) = CSQLAlchemyError"
| "class_of (NotFoundErrorResponse _) = CNotFoundErrorResponse"
| "class_of (ErrorResponse _) = CErrorResponse"
| "class_of (ValueError _) = CValueError"
| "class_of (TypeError _) = CTypeError"
| "class_of (AttributeError _) = CAttributeError"
| "class_of (ZeroDivisionError _) = CZeroDivisionError"
| "class_of (OverflowError _) = COverflowError"
| "class_of (Exception _) = CException"

text \<open>
  Which classes derive from \<^verbatim>\<open>BaseException\<close>. The two schema classes are pydantic
  models (\<^verbatim>\<open>class NotFoundErrorResponse(BaseModel)\<close>, base\_schemas.py lines 6 and 10),
  so they do not; every other class here derives from \<^verbatim>\<open>Exception\<close>.
\<close>

fun derives_from_BaseException :: "pyclass \<Rightarrow> bool" where
  "derives_from_BaseException CNotFoundErrorResponse = False"
| "derives_from_BaseException CErrorResponse = False"
| "derives_from_BaseException _ = True"

definition issubclass :: "pyclass \<Rightarrow> pyclass \<Rightarrow> bool" where
  "issubclass c d = (c = d \<or> (d = CException \<and> derives_from_BaseException c))"

text \<open>
  \<^verbatim>\<open>raise obj\<close>: Python 3 propagates \<open>obj\<close> when it is an exception instance, and
  raises \<^verbatim>\<open>TypeError: exceptions must derive from BaseException\<close> otherwise.
  The function returns what is in flight after the statement.
\<close>

definition py_raise :: "pyobj \<Rightarrow> pyobj" where
  "py_raise obj =
     (if derives_from_BaseException (class_of obj) then obj
      else TypeError ''exceptions must derive from BaseException'')"

text \<open>\<^verbatim>\<open>str(e)\<close> (also \<^verbatim>\<open>f"{e}"\<close>) and \<^verbatim>\<open>e.message\<close>.\<close>

fun str_of :: "pyobj \<Rightarrow> string" where
  "str_of (HTTPException s d h) = d"
| "str_of (SQLAlchemyError m) = m"
| "str_of (NotFoundErrorResponse m) = m"
| "str_of (ErrorResponse m) = m"
| "str_of (ValueError m) = m"
| "str_of (TypeError m) = m"
| "str_of (AttributeError m) = m"
| "str_of (ZeroDivisionError m) = m"
| "str_of (OverflowError m) = m"
| "str_of (Exception m) = m"

text \<open>
  A chain of \<^verbatim>\<open>except C as e: raise h(e)\<close> clauses, tried in order against the
  exception in flight. Python evaluates the class of a clause only when the clause is
  reached, and raises \<^verbatim>\<open>TypeError\<close> there when the class does not inherit
  from \<^verbatim>\<open>BaseException\<close>; that error leaves the whole \<^verbatim>\<open>try\<close> statement (the
  later clauses of the same statement do not see it). The result is the exception that
  leaves the statement.
\<close>

fun try_except :: "(pyclass \<times> (pyobj \<Rightarrow> pyobj)) list \<Rightarrow> pyobj \<Rightarrow> pyobj" where
  "try_except [] e = e"
| "try_except ((c, h) # cs) e =
     (if \<not> derives_from_BaseException c
      then TypeError ''catching classes that do not inherit from BaseException is not allowed''
      else if issubclass (class_of e) c then h e
      else try_except cs e)"

text \<open>
  \<^verbatim>\<open>handle_exceptions(func)\<close> of \<^verbatim>\<open>app/utils/helper_functions.py\<close>: the wrapper
  returns what \<open>func\<close> returns, and passes an exception of \<open>func\<close> through the six
  \<^verbatim>\<open>except\<close> clauses in the order of the source.
\<close>

definition handle_exceptions :: "('a \<Rightarrow> pyobj + 'b) \<Rightarrow> 'a \<Rightarrow> pyobj + 'b" where
  "handle_exceptions func args =
     (case func args of
        Inr v \<Rightarrow> Inr v
      | Inl e \<Rightarrow> Inl (try_except
          [ (CHTTPException, \<lambda>e. e),
            (CSQLAlchemyError, \<lambda>e.
               HTTPException 420 (''Database connection error occurred: '' @ str_of e)
                 [(''X-Error'', ''Database Error'')]),
            (CNotFoundErrorResponse, \<lambda>e.
               HTTPException 404 (''Resource not found: '' @ str_of e)
                 [(''X-Error'', ''Resource Not Found'')]),
            (CErrorResponse, \<lambda>e.
               HTTPException 500 (''Internal server error occurred: '' @ str_of e)
                 [(''X-Error'', ''Bad Request'')]),
            (CValueError, \<lambda>e.
               HTTPException 400 (''Bad request error occurred: '' @ str_of e)
                 [(''X-Error'', ''Bad Request'')]),
            (CException, \<lambda>e.
               HTTPException 500 (''Internal server error occurred: '' @ str_of e)
                 [(''X-Error'', ''Internal Server Error'')]) ] e))"

text \<open>
  The status code of the HTTP response the framework sends for the outcome of a route
  function: the route's own success code when it returns, the code of an
  \<^verbatim>\<open>HTTPException\<close>, and 500 (Starlette's server-error middleware) for any other
  exception that leaves the route function.
\<close>

fun response_status :: "int \<Rightarrow> pyobj + 'a \<Rightarrow> int" where
  "response_status ok (Inr v) = ok"
| "response_status ok (Inl (HTTPException s d h)) = s"
| "response_status ok (Inl e) = 500"

section \<open>Entity records and the storage session\<close>

text \<open>
  \<^verbatim>\<open>ExampleModel\<close> (app/models/example\_model.py) on top of \<^verbatim>\<open>BaseModel\<close>
  (app/models/base\_model.py): the columns \<^verbatim>\<open>id\<close>, \<^verbatim>\<open>created_at\<close>,
  \<^verbatim>\<open>updated_at\<close>, \<^verbatim>\<open>name\<close>, \<^verbatim>\<open>value\<close>, \<^verbatim>\<open>description\<close>. A point in time
  is an integer on some fixed time axis.
\<close>

type_synonym datetime = int

record row =
  row_id :: string
  created_at :: datetime
  updated_at :: datetime
  name :: string
  row_value :: int
  description :: string

datatype field = StrV string | IntV int | DateV datetime

type_synonym dict = "(string \<times> field) list"

datatype column =
  Col_id | Col_created_at | Col_updated_at | Col_name | Col_value | Col_description

fun col_value :: "column \<Rightarrow> row \<Rightarrow> field" where
  "col_value Col_id r = StrV (row_id r)"
| "col_value Col_created_at r = DateV (created_at r)"
| "col_value Col_updated_at r = DateV (updated_at r)"
| "col_value Col_name r = StrV (name r)"
| "col_value Col_value r = IntV (row_value r)"
| "col_value Col_description r = StrV (description r)"

fun col_is_string :: "column \<Rightarrow> bool" where
  "col_is_string Col_id = True"
| "col_is_string Col_name = True"
| "col_is_string Col_description = True"
| "col_is_string _ = False"

text \<open>\<^verbatim>\<open>to_dict\<close>: column name to value, for every column of the table.\<close>

definition to_dict :: "row \<Rightarrow> dict" where
  "to_dict r =
     [ (''id'', col_value Col_id r),
       (''created_at'', col_value Col_created_at r),
       (''updated_at'', col_value Col_updated_at r),
       (''name'', col_value Col_name r),
       (''value'', col_value Col_value r),
       (''description'', col_value Col_description r) ]"

text \<open>
  \<^verbatim>\<open>getattr(cls, name)\<close> as the source uses it, to obtain a column to sort or search
  on. A name that is no column gives no column expression, and the source's next call
  on it (\<^verbatim>\<open>.asc()\<close>, \<^verbatim>\<open>.desc()\<close>, \<^verbatim>\<open>.ilike(...)\<close>) raises
  \<^verbatim>\<open>AttributeError\<close>.
\<close>

definition getattr :: "string \<Rightarrow> pyobj + column" where
  "getattr n =
     (if n = ''id'' then Inr Col_id
      else if n = ''created_at'' then Inr Col_created_at
      else if n = ''updated_at'' then Inr Col_updated_at
      else if n = ''name'' then Inr Col_name
      else if n = ''value'' then Inr Col_value
      else if n = ''description'' then Inr Col_description
      else Inl (AttributeError n))"

text \<open>
  What differs between database engines (and their drivers) and is visible to a request.
  The source fixes no engine (\<^verbatim>\<open>create_engine(settings.DATABASE_URL)\<close>), so each
  such behaviour is a parameter:
  \<^item> \<open>cast_datetime\<close>: how the engine reads the text of a date bound as a point in
    time (\<^verbatim>\<open>min_date\<close>, \<^verbatim>\<open>max_date\<close> are strings compared with a DateTime column);
  \<^item> \<open>unreadable_date\<close>: what the comparison does for a bound that is not read as a
    point in time, for a lower (\<open>False\<close>) and an upper (\<open>True\<close>) bound: the statement
    fails (PostgreSQL), or the bound is compared in some other way (SQLite compares
    texts);
  \<^item> \<open>int64_params\<close>: whether the driver refuses an integer parameter outside the
    64-bit range with \<^verbatim>\<open>OverflowError\<close> (Python's sqlite3 does);
  \<^item> \<open>negative_limit_fails\<close>: whether a negative \<^verbatim>\<open>LIMIT\<close> or \<^verbatim>\<open>OFFSET\<close> makes
    the statement fail (PostgreSQL, MySQL); otherwise a negative \<^verbatim>\<open>LIMIT\<close> is no limit
    and a negative \<^verbatim>\<open>OFFSET\<close> is 0 (SQLite);
  \<^item> \<open>like_escape\<close>: whether backslash is the default escape character of
    \<^verbatim>\<open>LIKE\<close> patterns (it is on PostgreSQL and MySQL, not on SQLite);
  \<^item> \<open>like_nul_ends\<close>: whether \<^verbatim>\<open>LIKE\<close> reads pattern and value only up to the
    first NUL character (SQLite);
  \<^item> \<open>fold_non_ascii\<close>: the case folding that \<^verbatim>\<open>ILIKE\<close> applies to a pattern or
    value with characters beyond ASCII (SQLite folds the ASCII letters only, PostgreSQL
    folds other letters too);
  \<^item> \<open>ilike_non_text\<close>: what \<^verbatim>\<open>ILIKE\<close> does on a column that holds no text, for
    the column and the pattern: the statement fails (PostgreSQL), or the values are
    matched as texts (SQLite).
\<close>

record engine =
  cast_datetime :: "string \<Rightarrow> datetime option"
  unreadable_date :: "bool \<Rightarrow> string \<Rightarrow> pyobj + (datetime \<Rightarrow> bool)"
  int64_params :: bool
  negative_limit_fails :: bool
  like_escape :: bool
  like_nul_ends :: bool
  fold_non_ascii :: "string \<Rightarrow> string"
  ilike_non_text :: "column \<Rightarrow> string \<Rightarrow> pyobj + (row \<Rightarrow> bool)"

text \<open>
  The storage session \<open>db\<close>: the rows of the table in storage order, the engine, and
  what the environment contributes to a request:
  \<^item> \<open>fault\<close>: when set, the connection is down and every statement raises
    \<^verbatim>\<open>SQLAlchemyError\<close> with that text;
  \<^item> \<open>uuid4\<close> and \<open>now\<close>: what \<^verbatim>\<open>generate_uuid()\<close> and \<^verbatim>\<open>func.now()\<close> give
    during this request.
\<close>

record session =
  table :: "row list"
  fault :: "string option"
  engine :: engine
  uuid4 :: string
  now :: datetime

section \<open>Queries\<close>

text \<open>Sequencing of fallible steps: the first exception ends the computation.\<close>

fun bind_r :: "pyobj + 'a \<Rightarrow> ('a \<Rightarrow> pyobj + 'b) \<Rightarrow> pyobj + 'b" where
  "bind_r (Inl e) f = Inl e"
| "bind_r (Inr x) f = f x"

subsection \<open>Comparison of column values and ORDER BY\<close>

fun str_le :: "string \<Rightarrow> string \<Rightarrow> bool" where
  "str_le [] t = True"
| "str_le (a # s) [] = False"
| "str_le (a # s) (b # t) =
     ((of_char a :: nat) < of_char b \<or> (a = b \<and> str_le s t))"

fun field_le :: "field \<Rightarrow> field \<Rightarrow> bool" where
  "field_le (DateV a) (DateV b) = (a \<le> b)"
| "field_le (IntV a) (IntV b) = (a \<le> b)"
| "field_le (StrV a) (StrV b) = str_le a b"
| "field_le _ _ = False"

text \<open>
  \<^verbatim>\<open>ORDER BY col ASC\<close> and \<^verbatim>\<open>ORDER BY col DESC\<close> as a stable insertion sort: rows
  with equal keys keep the order they had. (SQL leaves the order of such rows to the
  engine; a stable sort is the order an engine gives that sorts the rows it scanned.)
\<close>

fun insort_by :: "('a \<Rightarrow> 'a \<Rightarrow> bool) \<Rightarrow> 'a \<Rightarrow> 'a list \<Rightarrow> 'a list" where
  "insort_by le x [] = [x]"
| "insort_by le x (y # ys) = (if le x y then x # y # ys else y # insort_by le x ys)"

definition stable_sort :: "('a \<Rightarrow> 'a \<Rightarrow> bool) \<Rightarrow> 'a list \<Rightarrow> 'a list" where
  "stable_sort le xs = foldr (insort_by le) xs []"

definition order_rows :: "column \<Rightarrow> bool \<Rightarrow> row list \<Rightarrow> row list" where
  "order_rows c desc rs =
     (if desc then stable_sort (\<lambda>x y. field_le (col_value c y) (col_value c x)) rs
      else stable_sort (\<lambda>x y. field_le (col_value c x) (col_value c y)) rs)"

subsection \<open>ILIKE\<close>

text \<open>
  \<^verbatim>\<open>LIKE\<close> matching of a whole string against a pattern: \<^verbatim>\<open>%\<close> stands for any
  sequence of characters, \<^verbatim>\<open>_\<close> for any one character, and, when the engine has
  backslash as escape character, a backslash makes the next pattern character literal.
  \<^verbatim>\<open>ILIKE\<close> is \<^verbatim>\<open>LIKE\<close> on the case-folded pattern and value, each read up to
  its first NUL character on an engine that does so. A text of ASCII characters is
  folded by \<open>lower\<close>, which maps the letters A to Z to a to z, on every engine; any
  other text is folded as the engine does. Pattern characters that only some engines
  have beyond these (character classes in brackets) are not covered.
\<close>

fun like_match :: "bool \<Rightarrow> string \<Rightarrow> string \<Rightarrow> bool" where
  "like_match esc [] s = (s = [])"
| "like_match esc (p # ps) [] = (p = CHR ''%'' \<and> like_match esc ps [])"
| "like_match esc (p # ps) (c # cs) =
     (if p = CHR ''%'' then like_match esc ps (c # cs) \<or> like_match esc (p # ps) cs
      else if p = CHR ''_'' then like_match esc ps cs
      else if esc \<and> p = CHR 0x5C then
        (case ps of [] \<Rightarrow> False | q # qs \<Rightarrow> c = q \<and> like_match esc qs cs)
      else c = p \<and> like_match esc ps cs)"

definition lower_char :: "char \<Rightarrow> char" where
  "lower_char c =
     (let n = (of_char c :: nat) in if 65 \<le> n \<and> n \<le> 90 then char_of (n + 32) else c)"

definition lower :: "string \<Rightarrow> string" where
  "lower s = map lower_char s"

definition fold_case :: "engine \<Rightarrow> string \<Rightarrow> string" where
  "fold_case e s =
     (if list_all (\<lambda>c. (of_char c :: nat) < 128) s then lower s else fold_non_ascii e s)"

definition ilike :: "engine \<Rightarrow> string \<Rightarrow> string \<Rightarrow> bool" where
  "ilike e v pat =
     (let p = fold_case e pat; s = fold_case e v in
      if like_nul_ends e
      then like_match (like_escape e) (takeWhile (\<lambda>c. c \<noteq> CHR 0x00) p)
             (takeWhile (\<lambda>c. c \<noteq> CHR 0x00) s)
      else like_match (like_escape e) p s)"

subsection \<open>Building and running a query\<close>

datatype cond =
    Created_at_ge string
  | Created_at_le string
  | Value_ge int
  | Value_le int
  | Id_eq string
  | ILike column string

record query =
  q_filters :: "cond list"
  q_order :: "(column \<times> bool) option"
  q_limit :: "int option"
  q_offset :: "int option"

definition db_query :: query where
  "db_query = \<lparr>q_filters = [], q_order = None, q_limit = None, q_offset = None\<rparr>"

definition filter_q :: "query \<Rightarrow> cond \<Rightarrow> query" where
  "filter_q q c = q\<lparr>q_filters := q_filters q @ [c]\<rparr>"

definition order_by :: "query \<Rightarrow> column \<Rightarrow> bool \<Rightarrow> query" where
  "order_by q c desc = q\<lparr>q_order := Some (c, desc)\<rparr>"

definition limit_q :: "query \<Rightarrow> int \<Rightarrow> query" where
  "limit_q q n = q\<lparr>q_limit := Some n\<rparr>"

definition offset_q :: "query \<Rightarrow> int \<Rightarrow> query" where
  "offset_q q n = q\<lparr>q_offset := Some n\<rparr>"

text \<open>
  The row predicate of one \<^verbatim>\<open>WHERE\<close> condition. The bounds are inclusive. What
  happens for a date bound that is not read as a point in time, for an integer bound
  outside the 64-bit range and for \<^verbatim>\<open>ILIKE\<close> on a column that holds no text is the
  engine's.
\<close>

definition int64 :: "int \<Rightarrow> bool" where
  "int64 v = (- (2 ^ 63) \<le> v \<and> v < 2 ^ 63)"

fun eval_cond :: "session \<Rightarrow> cond \<Rightarrow> pyobj + (row \<Rightarrow> bool)" where
  "eval_cond db (Created_at_ge d) =
     (case cast_datetime (engine db) d of
        None \<Rightarrow> bind_r (unreadable_date (engine db) False d) (\<lambda>p. Inr (\<lambda>r. p (created_at r)))
      | Some t \<Rightarrow> Inr (\<lambda>r. t \<le> created_at r))"
| "eval_cond db (Created_at_le d) =
     (case cast_datetime (engine db) d of
        None \<Rightarrow> bind_r (unreadable_date (engine db) True d) (\<lambda>p. Inr (\<lambda>r. p (created_at r)))
      | Some t \<Rightarrow> Inr (\<lambda>r. created_at r \<le> t))"
| "eval_cond db (Value_ge v) =
     (if int64_params (engine db) \<and> \<not> int64 v
      then Inl (OverflowError ''Python int too large to convert to SQLite INTEGER'')
      else Inr (\<lambda>r. v \<le> row_value r))"
| "eval_cond db (Value_le v) =
     (if int64_params (engine db) \<and> \<not> int64 v
      then Inl (OverflowError ''Python int too large to convert to SQLite INTEGER'')
      else Inr (\<lambda>r. row_value r \<le> v))"
| "eval_cond db (Id_eq i) = Inr (\<lambda>r. row_id r = i)"
| "eval_cond db (ILike c pat) =
     (if col_is_string c
      then Inr (\<lambda>r. case col_value c r of StrV v \<Rightarrow> ilike (engine db) v pat | _ \<Rightarrow> False)
      else ilike_non_text (engine db) c pat)"

fun eval_conds :: "session \<Rightarrow> cond list \<Rightarrow> pyobj + (row \<Rightarrow> bool)" where
  "eval_conds db [] = Inr (\<lambda>r. True)"
| "eval_conds db (c # cs) =
     bind_r (eval_cond db c) (\<lambda>p. bind_r (eval_conds db cs) (\<lambda>ps. Inr (\<lambda>r. p r \<and> ps r)))"

text \<open>
  \<^verbatim>\<open>OFFSET\<close> then \<^verbatim>\<open>LIMIT\<close> on the ordered rows. Both numbers are parameters of
  the statement; what a number outside the 64-bit range and a negative number do is
  the engine's.
\<close>

definition slice_rows ::
  "engine \<Rightarrow> int option \<Rightarrow> int option \<Rightarrow> row list \<Rightarrow> pyobj + row list" where
  "slice_rows e ofs lmt rs =
     (let k = (case ofs of None \<Rightarrow> 0 | Some k \<Rightarrow> k) in
      if int64_params e \<and> \<not> (int64 k \<and> (case lmt of None \<Rightarrow> True | Some n \<Rightarrow> int64 n))
      then Inl (OverflowError ''Python int too large to convert to SQLite INTEGER'')
      else if k < 0 \<and> negative_limit_fails e
      then Inl (SQLAlchemyError ''OFFSET must not be negative'')
      else (case lmt of
              None \<Rightarrow> Inr (drop (nat k) rs)
            | Some n \<Rightarrow>
                if n < 0
                then (if negative_limit_fails e
                      then Inl (SQLAlchemyError ''LIMIT must not be negative'')
                      else Inr (drop (nat k) rs))
                else Inr (take (nat n) (drop (nat k) rs))))"

text \<open>\<^verbatim>\<open>query.all()\<close>, \<^verbatim>\<open>query.count()\<close> and \<^verbatim>\<open>query.first()\<close>.\<close>

definition all_q :: "session \<Rightarrow> query \<Rightarrow> pyobj + row list" where
  "all_q db q =
     (case fault db of
        Some m \<Rightarrow> Inl (SQLAlchemyError m)
      | None \<Rightarrow>
          bind_r (eval_conds db (q_filters q)) (\<lambda>p.
            slice_rows (engine db) (q_offset q) (q_limit q)
              (case q_order q of
                 None \<Rightarrow> filter p (table db)
               | Some (c, desc) \<Rightarrow> order_rows c desc (filter p (table db)))))"

definition count_q :: "session \<Rightarrow> query \<Rightarrow> pyobj + int" where
  "count_q db q = bind_r (all_q db q) (\<lambda>rs. Inr (int (length rs)))"

definition first_q :: "session \<Rightarrow> query \<Rightarrow> pyobj + row option" where
  "first_q db q =
     bind_r (all_q db (limit_q q 1)) (\<lambda>rs. Inr (case rs of [] \<Rightarrow> None | r # _ \<Rightarrow> Some r))"

section \<open>BaseModel: the query engine\<close>

text \<open>
  Python truthiness as the source tests its optional parameters: \<^verbatim>\<open>if min_date:\<close>
  holds for a non-empty string, \<^verbatim>\<open>if min_value:\<close> for an integer other than 0;
  \<^verbatim>\<open>None\<close> is false in both.
\<close>

fun truthy_str :: "string option \<Rightarrow> bool" where
  "truthy_str None = False"
| "truthy_str (Some s) = (s \<noteq> [])"

fun truthy_int :: "int option \<Rightarrow> bool" where
  "truthy_int None = False"
| "truthy_int (Some v) = (v \<noteq> 0)"

text \<open>
  The query that \<^verbatim>\<open>get_all\<close> (lines 43 to 57), \<^verbatim>\<open>get_paginated\<close> (lines 77 to 91)
  and \<^verbatim>\<open>get_pagination_metadata\<close> (lines 111 to 125) each build, in the same words:
  the filters for the bounds that are truthy, the search filter when both
  \<^verbatim>\<open>search_field\<close> and \<^verbatim>\<open>search\<close> are truthy, and the ordering.
\<close>

definition build_query ::
  "string \<Rightarrow> string \<Rightarrow> string option \<Rightarrow> string option \<Rightarrow> int option \<Rightarrow> int option
     \<Rightarrow> string option \<Rightarrow> string option \<Rightarrow> pyobj + query" where
  "build_query sort_by order min_date max_date min_value max_value search_field search =
     (let query = db_query;
          query = (if truthy_str min_date
                   then filter_q query (Created_at_ge (case min_date of Some d \<Rightarrow> d | None \<Rightarrow> []))
                   else query);
          query = (if truthy_str max_date
                   then filter_q query (Created_at_le (case max_date of Some d \<Rightarrow> d | None \<Rightarrow> []))
                   else query);
          query = (if truthy_int min_value
                   then filter_q query (Value_ge (case min_value of Some v \<Rightarrow> v | None \<Rightarrow> 0))
                   else query);
          query = (if truthy_int max_value
                   then filter_q query (Value_le (case max_value of Some v \<Rightarrow> v | None \<Rightarrow> 0))
                   else query)
      in bind_r
           (if truthy_str search_field \<and> truthy_str search
            then bind_r (getattr (case search_field of Some f \<Rightarrow> f | None \<Rightarrow> []))
                   (\<lambda>c. Inr (filter_q query
                      (ILike c (''%'' @ (case search of Some t \<Rightarrow> t | None \<Rightarrow> []) @ ''%''))))
            else Inr query)
           (\<lambda>query. bind_r (getattr sort_by)
              (\<lambda>c. Inr (order_by query c (order = ''desc'')))))"

definition get_all ::
  "session \<Rightarrow> string \<Rightarrow> string \<Rightarrow> string option \<Rightarrow> string option \<Rightarrow> int option \<Rightarrow> int option
     \<Rightarrow> string option \<Rightarrow> string option \<Rightarrow> pyobj + dict list" where
  "get_all db sort_by order min_date max_date min_value max_value search_field search =
     bind_r (build_query sort_by order min_date max_date min_value max_value search_field search)
       (\<lambda>query. bind_r (all_q db query)
          (\<lambda>instances. Inr (map to_dict instances)))"

text \<open>
  \<^verbatim>\<open>get_paginated\<close> builds the same query and then (line 93) runs
  \<^verbatim>\<open>db.query(cls).limit(limit).offset((page - 1) * limit).all()\<close>, a fresh query.
\<close>

definition get_paginated ::
  "session \<Rightarrow> int \<Rightarrow> int \<Rightarrow> string \<Rightarrow> string \<Rightarrow> string option \<Rightarrow> string option
     \<Rightarrow> int option \<Rightarrow> int option \<Rightarrow> string option \<Rightarrow> string option \<Rightarrow> pyobj + dict list" where
  "get_paginated db page limit sort_by order min_date max_date min_value max_value
       search_field search =
     bind_r (build_query sort_by order min_date max_date min_value max_value search_field search)
       (\<lambda>query. bind_r (all_q db (offset_q (limit_q db_query limit) ((page - 1) * limit)))
          (\<lambda>instances. Inr (map to_dict instances)))"

record pagination_metadata =
  total_count :: int
  total_pages :: int
  current_page :: int
  page_size :: int

text \<open>
  \<^verbatim>\<open>//\<close> is floor division on unbounded integers, as \<open>div\<close> on \<open>int\<close> is; it
  raises \<^verbatim>\<open>ZeroDivisionError\<close> for the divisor 0.
\<close>

definition get_pagination_metadata ::
  "session \<Rightarrow> int \<Rightarrow> int \<Rightarrow> string \<Rightarrow> string \<Rightarrow> string option \<Rightarrow> string option
     \<Rightarrow> int option \<Rightarrow> int option \<Rightarrow> string option \<Rightarrow> string option
     \<Rightarrow> pyobj + pagination_metadata" where
  "get_pagination_metadata db page limit sort_by order min_date max_date min_value max_value
       search_field search =
     bind_r (build_query sort_by order min_date max_date min_value max_value search_field search)
       (\<lambda>query. bind_r (count_q db query)
          (\<lambda>total_count.
             if limit = 0 then Inl (ZeroDivisionError ''integer division or modulo by zero'')
             else Inr \<lparr>total_count = total_count,
                       total_pages = (total_count + limit - 1) div limit,
                       current_page = page,
                       page_size = limit\<rparr>))"

definition get_by_id :: "string \<Rightarrow> session \<Rightarrow> pyobj + dict option" where
  "get_by_id instance_id db =
     bind_r (first_q db (filter_q db_query (Id_eq instance_id)))
       (\<lambda>instance. Inr (case instance of Some r \<Rightarrow> Some (to_dict r) | None \<Rightarrow> None))"

text \<open>
  The request body of create and update (\<^verbatim>\<open>ExampleBase\<close>, example\_schemas.py):
  \<^verbatim>\<open>request.model_dump()\<close> gives the keyword arguments \<^verbatim>\<open>name\<close>, \<^verbatim>\<open>value\<close>,
  \<^verbatim>\<open>description\<close>.
\<close>

record example_base =
  req_name :: string
  req_value :: int
  req_description :: string

text \<open>
  \<^verbatim>\<open>create\<close>: the new row gets its id from \<^verbatim>\<open>generate_uuid\<close> and both
  timestamps from \<^verbatim>\<open>func.now()\<close>; the INSERT of \<^verbatim>\<open>db.commit()\<close> fails on a
  connection that is down and on an id that is already stored (primary key).
\<close>

definition create :: "session \<Rightarrow> example_base \<Rightarrow> pyobj + (dict \<times> session)" where
  "create db kwargs =
     (let instance = \<lparr>row_id = uuid4 db, created_at = now db, updated_at = now db,
                       name = req_name kwargs, row_value = req_value kwargs,
                       description = req_description kwargs\<rparr>
      in case fault db of
           Some m \<Rightarrow> Inl (SQLAlchemyError m)
         | None \<Rightarrow>
             if uuid4 db \<in> set (map row_id (table db))
             then Inl (SQLAlchemyError ''UNIQUE constraint failed'')
             else Inr (to_dict instance, db\<lparr>table := table db @ [instance]\<rparr>))"

text \<open>
  \<^verbatim>\<open>update\<close>: the attributes are set on the instance found; \<^verbatim>\<open>db.commit()\<close>
  writes the row, with \<^verbatim>\<open>updated_at\<close> from \<^verbatim>\<open>onupdate=func.now()\<close>, when an
  attribute changed, and writes nothing otherwise.
\<close>

definition update :: "string \<Rightarrow> session \<Rightarrow> example_base \<Rightarrow> pyobj + (dict option \<times> session)" where
  "update instance_id db kwargs =
     bind_r (first_q db (filter_q db_query (Id_eq instance_id)))
       (\<lambda>instance.
          case instance of
            Some r \<Rightarrow>
              (let r' = r\<lparr>name := req_name kwargs, row_value := req_value kwargs,
                          description := req_description kwargs\<rparr>
               in if r' = r then Inr (Some (to_dict r), db)
                  else Inr (Some (to_dict (r'\<lparr>updated_at := now db\<rparr>)),
                            db\<lparr>table := map (\<lambda>x. if row_id x = row_id r
                                                  then r'\<lparr>updated_at := now db\<rparr> else x)
                                            (table db)\<rparr>))
          | None \<Rightarrow> Inr (None, db))"

text \<open>
  \<^verbatim>\<open>delete\<close>: \<^verbatim>\<open>db.delete(instance)\<close> and \<^verbatim>\<open>db.commit()\<close> remove the stored row
  with the primary key of the instance found.
\<close>

definition delete :: "string \<Rightarrow> session \<Rightarrow> pyobj + (bool \<times> session)" where
  "delete instance_id db =
     bind_r (first_q db (filter_q db_query (Id_eq instance_id)))
       (\<lambda>instance.
          case instance of
            Some r \<Rightarrow> Inr (True, db\<lparr>table := filter (\<lambda>x. row_id x \<noteq> row_id r) (table db)\<rparr>)
          | None \<Rightarrow> Inr (False, db))"

section \<open>BaseRouter: the endpoints\<close>

text \<open>
  The response envelopes of base\_schemas.py. \<^verbatim>\<open>self.model.__name__\<close> is
  \<^verbatim>\<open>ExampleModel\<close> in every message.
\<close>

datatype response =
    APIBaseResponse string "dict option"
  | APIBaseListResponse string "dict list"
  | APIBasePaginatedResponse string "dict list" int int int int

definition get_all_records ::
  "session \<Rightarrow> string \<Rightarrow> string \<Rightarrow> string option \<Rightarrow> string option \<Rightarrow> int option \<Rightarrow> int option
     \<Rightarrow> string option \<Rightarrow> string option \<Rightarrow> pyobj + response" where
  "get_all_records db sort_by order min_date max_date min_value max_value search_field search =
     bind_r (get_all db sort_by order min_date max_date min_value max_value search_field search)
       (\<lambda>records. Inr (APIBaseListResponse ''All ExampleModel records'' records))"

text \<open>
  The arguments of \<^verbatim>\<open>APIBasePaginatedResponse\<close> are \<^verbatim>\<open>data\<close>, \<^verbatim>\<open>page\<close>,
  \<^verbatim>\<open>total_pages\<close>, \<^verbatim>\<open>total_records\<close>, \<^verbatim>\<open>page_size\<close>, in this order.
\<close>

definition get_paginated_records ::
  "session \<Rightarrow> int \<Rightarrow> int \<Rightarrow> string \<Rightarrow> string \<Rightarrow> string option \<Rightarrow> string option
     \<Rightarrow> int option \<Rightarrow> int option \<Rightarrow> string option \<Rightarrow> string option \<Rightarrow> pyobj + response" where
  "get_paginated_records db page limit sort_by order min_date max_date min_value max_value
       search_field search =
     bind_r (get_paginated db page limit sort_by order min_date max_date min_value max_value
               search_field search)
       (\<lambda>records.
          bind_r (get_pagination_metadata db page limit sort_by order min_date max_date
                    min_value max_value search_field search)
            (\<lambda>pagination_metadata.
               Inr (APIBasePaginatedResponse ''All ExampleModel records'' records page
                      (total_pages pagination_metadata) (total_count pagination_metadata)
                      limit)))"

definition get_record_by_id :: "string \<Rightarrow> session \<Rightarrow> pyobj + response" where
  "get_record_by_id record_id db =
     bind_r (get_by_id record_id db)
       (\<lambda>record.
          case record of
            None \<Rightarrow> Inl (py_raise (NotFoundErrorResponse ''No ExampleModel Found With Given Id''))
          | Some d \<Rightarrow> Inr (APIBaseResponse ''ExampleModel Found'' (Some d)))"

definition create_new_record :: "example_base \<Rightarrow> session \<Rightarrow> pyobj + (response \<times> session)" where
  "create_new_record request db =
     bind_r (create db request)
       (\<lambda>(record, db').
          if record = []
          then Inl (py_raise (ErrorResponse ''Error Occurred While Creating ExampleModel''))
          else Inr (APIBaseResponse ''ExampleModel Created Successfully'' (Some record), db'))"

definition update_existing_record ::
  "string \<Rightarrow> example_base \<Rightarrow> session \<Rightarrow> pyobj + (response \<times> session)" where
  "update_existing_record record_id request db =
     bind_r (get_by_id record_id db)
       (\<lambda>existing_record.
          case existing_record of
            None \<Rightarrow> Inl (py_raise (NotFoundErrorResponse ''No ExampleModel Found With Given Id''))
          | Some _ \<Rightarrow>
              bind_r (update record_id db request)
                (\<lambda>(record, db').
                   case record of
                     None \<Rightarrow>
                       Inl (py_raise (ErrorResponse ''Error Occurred While Updating ExampleModel''))
                   | Some d \<Rightarrow>
                       if d = []
                       then Inl (py_raise
                                   (ErrorResponse ''Error Occurred While Updating ExampleModel''))
                       else Inr (APIBaseResponse ''ExampleModel Updated Successfully'' (Some d),
                                 db')))"

definition delete_existing_record :: "string \<Rightarrow> session \<Rightarrow> pyobj + (response \<times> session)" where
  "delete_existing_record record_id db =
     bind_r (get_by_id record_id db)
       (\<lambda>existing_record.
          case existing_record of
            None \<Rightarrow> Inl (py_raise (NotFoundErrorResponse ''No ExampleModel Found With Given Id''))
          | Some _ \<Rightarrow>
              bind_r (delete record_id db)
                (\<lambda>(_, db'). Inr (APIBaseResponse ''ExampleModel Deleted Successfully'' None, db')))"

text \<open>
  The six route functions, each under \<^verbatim>\<open>@handle_exceptions\<close>. The route of
  \<^verbatim>\<open>/all\<close> passes only \<open>db\<close>, so \<^verbatim>\<open>get_all_records\<close> runs with its defaults.
\<close>

definition create_record :: "example_base \<times> session \<Rightarrow> pyobj + (response \<times> session)" where
  "create_record = handle_exceptions (\<lambda>(request, db). create_new_record request db)"

definition get_records_all :: "session \<Rightarrow> pyobj + response" where
  "get_records_all =
     handle_exceptions
       (\<lambda>db. get_all_records db ''created_at'' ''asc'' None None None None None None)"

definition get_records_paginated ::
  "int \<times> int \<times> string \<times> string \<times> string option \<times> string option \<times> int option \<times> int option
     \<times> string option \<times> string option \<times> session \<Rightarrow> pyobj + response" where
  "get_records_paginated =
     handle_exceptions
       (\<lambda>(page, limit, sort_by, order, min_date, max_date, min_value, max_value,
           search_field, search, db).
          get_paginated_records db page limit sort_by order min_date max_date min_value
            max_value search_field search)"

definition get_record_by_id_route :: "string \<times> session \<Rightarrow> pyobj + response" where
  "get_record_by_id_route = handle_exceptions (\<lambda>(record_id, db). get_record_by_id record_id db)"

definition update_record ::
  "string \<times> example_base \<times> session \<Rightarrow> pyobj + (response \<times> session)" where
  "update_record =
     handle_exceptions (\<lambda>(record_id, request, db). update_existing_record record_id request db)"

definition delete_record :: "string \<times> session \<Rightarrow> pyobj + (response \<times> session)" where
  "delete_record = handle_exceptions (\<lambda>(record_id, db). delete_existing_record record_id db)"

section \<open>Example stores\<close>

text \<open>Concrete rows, stores and a request body, for evaluating the operations.\<close>

definition row_a :: row where
  "row_a = \<lparr>row_id = ''a'', created_at = 1, updated_at = 1, name = ''abc'', row_value = 1,
             description = ''first''\<rparr>"

definition row_b :: row where
  "row_b = \<lparr>row_id = ''b'', created_at = 2, updated_at = 2, name = ''Example'', row_value = 5,
             description = ''second''\<rparr>"

definition row_c :: row where
  "row_c = \<lparr>row_id = ''c'', created_at = 2, updated_at = 2, name = ''Other'', row_value = 7,
             description = ''third''\<rparr>"

text \<open>
  An engine that refuses what it cannot read, and one that is lenient in the way SQLite
  is; both fold the ASCII letters only and have no escape character. The name of
  \<open>row_e\<close> is the UTF-8 text of the word Ecole with an acute accent on its capital E.
\<close>

definition strict_engine :: engine where
  "strict_engine =
     \<lparr>cast_datetime = (\<lambda>s. None),
      unreadable_date = (\<lambda>upper d. Inl (SQLAlchemyError ''invalid datetime'')),
      int64_params = False, negative_limit_fails = True,
      like_escape = False, like_nul_ends = False, fold_non_ascii = lower,
      ilike_non_text = (\<lambda>c pat. Inl (SQLAlchemyError ''operator does not exist''))\<rparr>"

definition lenient_engine :: engine where
  "lenient_engine =
     \<lparr>cast_datetime = (\<lambda>s. None),
      unreadable_date = (\<lambda>upper d. Inr (\<lambda>t. upper)),
      int64_params = True, negative_limit_fails = False,
      like_escape = False, like_nul_ends = True, fold_non_ascii = lower,
      ilike_non_text = (\<lambda>c pat. Inr (\<lambda>r. False))\<rparr>"

definition store2 :: session where
  "store2 = \<lparr>table = [row_a, row_b], fault = None, engine = strict_engine,
              uuid4 = ''d'', now = 3\<rparr>"

definition store_tie :: session where
  "store_tie = \<lparr>table = [row_b, row_c], fault = None, engine = strict_engine,
                 uuid4 = ''d'', now = 3\<rparr>"

definition store_down :: session where
  "store_down = \<lparr>table = [row_a, row_b], fault = Some ''connection refused'',
                  engine = strict_engine, uuid4 = ''d'', now = 3\<rparr>"

definition row_e :: row where
  "row_e = \<lparr>row_id = ''e'', created_at = 4, updated_at = 4,
             name = [CHR 0xC3, CHR 0x89] @ ''cole'', row_value = 2, description = ''accent''\<rparr>"

definition store_accent :: session where
  "store_accent = \<lparr>table = [row_e], fault = None, engine = lenient_engine,
                    uuid4 = ''d'', now = 5\<rparr>"

definition store_lenient :: session where
  "store_lenient = \<lparr>table = [row_a, row_b], fault = None, engine = lenient_engine,
                     uuid4 = ''d'', now = 3\<rparr>"

definition widget :: example_base where
  "widget = \<lparr>req_name = ''Widget'', req_value = 10, req_description = ''d''\<rparr>"

section \<open>Evaluation rules\<close>

lemmas store_defs = store2_def store_tie_def store_down_def store_lenient_def store_accent_def
  strict_engine_def lenient_engine_def row_a_def row_b_def row_c_def row_e_def widget_def

lemmas query_defs = build_query_def db_query_def filter_q_def order_by_def limit_q_def
  offset_q_def getattr_def all_q_def count_q_def first_q_def slice_rows_def int64_def
  order_rows_def stable_sort_def

lemmas model_defs = get_all_def get_paginated_def get_pagination_metadata_def get_by_id_def
  create_def update_def delete_def

lemmas router_defs = get_all_records_def get_paginated_records_def get_record_by_id_def
  create_new_record_def update_existing_record_def delete_existing_record_def

lemmas route_defs = create_record_def get_records_all_def get_records_paginated_def
  get_record_by_id_route_def update_record_def delete_record_def

lemma bind_r_Inr_iff: "bind_r m f = Inr y \<longleftrightarrow> (\<exists>x. m = Inr x \<and> f x = Inr y)"
  by (cases m) auto

section \<open>Properties of the exception translator\<close>

text \<open>
  C6: a failure that is already an \<^verbatim>\<open>HTTPException\<close> when it reaches the wrapper
  leaves it unchanged: same status code, same detail, same headers.
\<close>

theorem handle_exceptions_http_passthrough:
  assumes "func args = Inl (HTTPException s d h)"
  shows "handle_exceptions func args = Inl (HTTPException s d h)"
  using assms by (simp add: handle_exceptions_def issubclass_def)

text \<open>The instance for a route function that raises a 403 of its own.\<close>

theorem handle_exceptions_http_passthrough_witness:
  "handle_exceptions (\<lambda>u::unit. (Inl (HTTPException 403 ''Forbidden'' []) :: pyobj + unit)) ()
     = Inl (HTTPException 403 ''Forbidden'' [])"
  using handle_exceptions_http_passthrough
    [of "\<lambda>u::unit. (Inl (HTTPException 403 ''Forbidden'' []) :: pyobj + unit)" "()" 403 "''Forbidden''" "[]"]
  by simp

lemma create_new_record_store_down:
  "create_new_record widget store_down = Inl (SQLAlchemyError ''connection refused'')"
  by (simp add: router_defs model_defs store_defs)

text \<open>
  C5: when the route function raises a storage error (\<^verbatim>\<open>SQLAlchemyError\<close>), the wrapper
  raises the \<^verbatim>\<open>HTTPException\<close> with the custom code 420, so the response carries 420 and
  not 500. In particular, on a connection that is down the routes for create, list-all,
  get-by-id, update and delete answer 420, and so does the paginated route whenever its
  sort and search fields name columns (the storage is not reached otherwise).
\<close>

theorem storage_error_gives_420:
  "(func args = Inl (SQLAlchemyError m) \<longrightarrow>
      handle_exceptions func args
        = Inl (HTTPException 420 (''Database connection error occurred: '' @ m)
                 [(''X-Error'', ''Database Error'')])
      \<and> response_status ok (handle_exceptions func args) = 420)
   \<and> (fault db = Some m' \<longrightarrow>
        response_status 201 (create_record (request, db)) = 420
        \<and> response_status 200 (get_records_all db) = 420
        \<and> response_status 200 (get_record_by_id_route (i, db)) = 420
        \<and> response_status 200 (update_record (i, request, db)) = 420
        \<and> response_status 200 (delete_record (i, db)) = 420)
   \<and> (fault db = Some m' \<and> build_query sb ord mind maxd minv maxv sf s = Inr q \<longrightarrow>
        response_status 200 (get_records_paginated
          (page, limit, sb, ord, mind, maxd, minv, maxv, sf, s, db)) = 420)"
proof (intro conjI impI)
  assume "func args = Inl (SQLAlchemyError m)"
  then show "handle_exceptions func args
        = Inl (HTTPException 420 (''Database connection error occurred: '' @ m)
                 [(''X-Error'', ''Database Error'')])"
    by (simp add: handle_exceptions_def issubclass_def)
  then show "response_status ok (handle_exceptions func args) = 420" by simp
next
  assume "fault db = Some m'"
  then show "response_status 201 (create_record (request, db)) = 420"
    by (simp add: create_record_def create_new_record_def create_def handle_exceptions_def
        issubclass_def)
next
  assume "fault db = Some m'"
  then show "response_status 200 (get_records_all db) = 420"
    by (simp add: get_records_all_def get_all_records_def get_all_def query_defs
        handle_exceptions_def issubclass_def)
next
  assume "fault db = Some m'"
  then show "response_status 200 (get_record_by_id_route (i, db)) = 420"
    by (simp add: get_record_by_id_route_def get_record_by_id_def get_by_id_def first_q_def
        all_q_def handle_exceptions_def issubclass_def)
next
  assume "fault db = Some m'"
  then show "response_status 200 (update_record (i, request, db)) = 420"
    by (simp add: update_record_def update_existing_record_def get_by_id_def first_q_def
        all_q_def handle_exceptions_def issubclass_def)
next
  assume "fault db = Some m'"
  then show "response_status 200 (delete_record (i, db)) = 420"
    by (simp add: delete_record_def delete_existing_record_def get_by_id_def first_q_def
        all_q_def handle_exceptions_def issubclass_def)
next
  assume "fault db = Some m' \<and> build_query sb ord mind maxd minv maxv sf s = Inr q"
  then show "response_status 200 (get_records_paginated
          (page, limit, sb, ord, mind, maxd, minv, maxv, sf, s, db)) = 420"
    by (simp add: get_records_paginated_def get_paginated_records_def get_paginated_def
        all_q_def handle_exceptions_def issubclass_def)
qed

text \<open>
  The instance for a create request on a connection that is down, and for the other
  routes on the same store.
\<close>

theorem storage_error_gives_420_witness:
  "create_new_record widget store_down = Inl (SQLAlchemyError ''connection refused'')
   \<and> handle_exceptions (\<lambda>(request, db). create_new_record request db) (widget, store_down)
       = Inl (HTTPException 420 ''Database connection error occurred: connection refused''
                [(''X-Error'', ''Database Error'')])
   \<and> response_status 201 (create_record (widget, store_down)) = 420
   \<and> response_status 200 (get_records_all store_down) = 420
   \<and> response_status 200 (get_record_by_id_route (''a'', store_down)) = 420
   \<and> response_status 200 (update_record (''a'', widget, store_down)) = 420
   \<and> response_status 200 (delete_record (''a'', store_down)) = 420
   \<and> response_status 200 (get_records_paginated
        (1, 10, ''created_at'', ''asc'', None, None, None, None, None, None, store_down)) = 420"
proof -
  have f: "fault store_down = Some ''connection refused''"
    by (simp add: store_down_def)
  have b: "build_query ''created_at'' ''asc'' None None None None None None
             = Inr (order_by db_query Col_created_at False)"
    by (simp add: build_query_def getattr_def)
  show ?thesis
    using storage_error_gives_420
      [where func = "\<lambda>(request, db). create_new_record request db"
         and args = "(widget, store_down)" and m = "''connection refused''"
         and db = store_down and m' = "''connection refused''" and request = widget
         and i = "''a''" and sb = "''created_at''" and ord = "''asc''"
         and mind = None and maxd = None and minv = None and maxv = None
         and sf = None and s = None and q = "order_by db_query Col_created_at False"
         and page = 1 and limit = 10 and ok = 201]
      create_new_record_store_down f b
    by simp
qed

text \<open>
  C2: a get-by-id, update or delete on an id with no stored record does not give the
  404 response. \<^verbatim>\<open>raise NotFoundErrorResponse(...)\<close> raises \<^verbatim>\<open>TypeError\<close>, since the
  class is a pydantic model; the wrapper then reaches \<^verbatim>\<open>except NotFoundErrorResponse\<close>,
  which raises \<^verbatim>\<open>TypeError\<close> again, and the response is the framework's 500. Evaluated
  on the store with the ids \<open>a\<close> and \<open>b\<close> and the id \<open>zz\<close>.
\<close>

theorem not_found_gives_500:
  "get_record_by_id ''zz'' store2 = Inl (TypeError ''exceptions must derive from BaseException'')
   \<and> get_record_by_id_route (''zz'', store2)
       = Inl (TypeError
           ''catching classes that do not inherit from BaseException is not allowed'')
   \<and> update_record (''zz'', widget, store2)
       = Inl (TypeError
           ''catching classes that do not inherit from BaseException is not allowed'')
   \<and> delete_record (''zz'', store2)
       = Inl (TypeError
           ''catching classes that do not inherit from BaseException is not allowed'')
   \<and> response_status 200 (get_record_by_id_route (''zz'', store2)) = 500
   \<and> response_status 200 (update_record (''zz'', widget, store2)) = 500
   \<and> response_status 200 (delete_record (''zz'', store2)) = 500"
  by (simp add: route_defs router_defs handle_exceptions_def model_defs query_defs store_defs
      py_raise_def issubclass_def)

section \<open>Properties of the query engine\<close>

subsection \<open>Page count\<close>

lemma ceiling_division:
  assumes "0 < (p::int)"
  shows "(n + p - 1) div p = \<lceil>real_of_int n / real_of_int p\<rceil>"
proof -
  define k where "k = (n + p - 1) div p"
  define m where "m = (n + p - 1) mod p"
  have e: "n + p - 1 = p * k + m" by (simp add: k_def m_def)
  have m0: "0 \<le> m" and m1: "m < p" using assms by (simp_all add: m_def)
  have lo: "(k - 1) * p < n"
  proof -
    have "(k - 1) * p = p * k - p" by (simp add: algebra_simps)
    also have "\<dots> = n - 1 - m" using e by linarith
    also have "\<dots> < n" using m0 by linarith
    finally show ?thesis .
  qed
  have hi: "n \<le> k * p"
  proof -
    have "n = p * k + m - p + 1" using e by linarith
    also have "\<dots> \<le> p * k" using m1 by linarith
    finally show ?thesis by (simp add: mult.commute)
  qed
  have rp: "0 < real_of_int p" using assms by simp
  have "real_of_int (k - 1) < real_of_int n / real_of_int p"
  proof -
    have "real_of_int ((k - 1) * p) < real_of_int n" using lo by linarith
    then show ?thesis using rp by (simp add: pos_less_divide_eq)
  qed
  moreover have "real_of_int n / real_of_int p \<le> real_of_int k"
  proof -
    have "real_of_int n \<le> real_of_int (k * p)" using hi by linarith
    then show ?thesis using rp by (simp add: pos_divide_le_eq)
  qed
  ultimately have "\<lceil>real_of_int n / real_of_int p\<rceil> = k"
    by (intro ceiling_unique) simp_all
  then show ?thesis by (simp add: k_def)
qed

text \<open>
  C3: for a positive page size, whenever the records matching the filters can be listed
  (\<^verbatim>\<open>get_all\<close> returns \<open>N\<close> records), \<^verbatim>\<open>get_pagination_metadata\<close> returns, with
  \<open>total_count = N\<close> and \<open>total_pages = ceil(N / limit)\<close>.
\<close>

theorem total_pages_is_ceiling:
  assumes "0 < limit"
    and "get_all db sb ord mind maxd minv maxv sf s = Inr records"
  shows "get_pagination_metadata db page limit sb ord mind maxd minv maxv sf s
           = Inr \<lparr>total_count = int (length records),
                   total_pages = \<lceil>real_of_int (int (length records)) / real_of_int limit\<rceil>,
                   current_page = page, page_size = limit\<rparr>"
proof -
  from assms(2) obtain q where q: "build_query sb ord mind maxd minv maxv sf s = Inr q"
    by (auto simp: get_all_def bind_r_Inr_iff)
  from assms(2) q obtain rs where rs: "all_q db q = Inr rs" "records = map to_dict rs"
    by (auto simp: get_all_def bind_r_Inr_iff)
  have n: "count_q db q = Inr (int (length records))"
    using rs by (simp add: count_q_def)
  have "(int (length records) + limit - 1) div limit
          = \<lceil>real_of_int (int (length records)) / real_of_int limit\<rceil>"
    using assms(1) by (rule ceiling_division)
  then show ?thesis
    using assms(1) q n by (simp add: get_pagination_metadata_def)
qed

lemma get_all_store2_min3:
  "get_all store2 ''created_at'' ''asc'' None None (Some 3) None None None
     = Inr [to_dict row_b]"
  by (simp add: model_defs query_defs store_defs)

text \<open>The instance for one matching record and page size 10: one page.\<close>

theorem total_pages_is_ceiling_witness:
  "(0::int) < 10
   \<and> get_all store2 ''created_at'' ''asc'' None None (Some 3) None None None
       = Inr [to_dict row_b]
   \<and> get_pagination_metadata store2 1 10 ''created_at'' ''asc'' None None (Some 3) None None None
       = Inr \<lparr>total_count = 1, total_pages = 1, current_page = 1, page_size = 10\<rparr>"
proof -
  have p: "(0::int) < 10" by simp
  have c: "\<lceil>real_of_int (int (length [to_dict row_b])) / real_of_int 10\<rceil> = 1"
    using ceiling_division [of 10 1] by simp
  show ?thesis
    using total_pages_is_ceiling [OF p get_all_store2_min3, of 1] get_all_store2_min3 c
    by simp
qed

text \<open>
  The metadata follows the listing in its failures too: it returns only when the
  listing returns, and for the page size 0 it raises \<^verbatim>\<open>ZeroDivisionError\<close>.
\<close>

lemma metadata_returns_only_with_get_all:
  assumes "get_pagination_metadata db page limit sb ord mind maxd minv maxv sf s = Inr md"
  shows "\<exists>records. get_all db sb ord mind maxd minv maxv sf s = Inr records
           \<and> total_count md = int (length records)"
proof -
  from assms obtain q where q: "build_query sb ord mind maxd minv maxv sf s = Inr q"
    by (auto simp: get_pagination_metadata_def bind_r_Inr_iff)
  from assms q obtain n where n: "count_q db q = Inr n"
    by (auto simp: get_pagination_metadata_def bind_r_Inr_iff)
  from n obtain rs where rs: "all_q db q = Inr rs" "n = int (length rs)"
    by (auto simp: count_q_def bind_r_Inr_iff)
  have "total_count md = n"
    using assms q n by (auto simp: get_pagination_metadata_def split: if_splits)
  moreover have "get_all db sb ord mind maxd minv maxv sf s = Inr (map to_dict rs)"
    using q rs by (simp add: get_all_def)
  ultimately show ?thesis using rs(2) by simp
qed

lemma metadata_page_size_zero:
  assumes "get_all db sb ord mind maxd minv maxv sf s = Inr records"
  shows "get_pagination_metadata db page 0 sb ord mind maxd minv maxv sf s
           = Inl (ZeroDivisionError ''integer division or modulo by zero'')"
proof -
  from assms obtain q where q: "build_query sb ord mind maxd minv maxv sf s = Inr q"
    by (auto simp: get_all_def bind_r_Inr_iff)
  from assms q obtain rs where rs: "all_q db q = Inr rs"
    by (auto simp: get_all_def bind_r_Inr_iff)
  show ?thesis using q rs by (simp add: get_pagination_metadata_def count_q_def)
qed

subsection \<open>A bound of 0\<close>

lemma build_query_min_value_zero:
  "build_query sb ord mind maxd (Some 0) maxv sf s = build_query sb ord mind maxd None maxv sf s"
  by (simp add: build_query_def)

lemma build_query_max_value_zero:
  "build_query sb ord mind maxd minv (Some 0) sf s = build_query sb ord mind maxd minv None sf s"
  by (simp add: build_query_def)

text \<open>
  C10: in \<^verbatim>\<open>get_all\<close>, \<^verbatim>\<open>get_paginated\<close> and \<^verbatim>\<open>get_pagination_metadata\<close>, a
  \<^verbatim>\<open>min_value\<close> or \<^verbatim>\<open>max_value\<close> of 0 gives the result of the same call with that bound
  absent (\<^verbatim>\<open>if min_value:\<close> is false for 0).
\<close>

theorem zero_bound_not_applied:
  "get_all db sb ord mind maxd (Some 0) maxv sf s = get_all db sb ord mind maxd None maxv sf s
   \<and> get_all db sb ord mind maxd minv (Some 0) sf s = get_all db sb ord mind maxd minv None sf s
   \<and> get_paginated db page limit sb ord mind maxd (Some 0) maxv sf s
       = get_paginated db page limit sb ord mind maxd None maxv sf s
   \<and> get_paginated db page limit sb ord mind maxd minv (Some 0) sf s
       = get_paginated db page limit sb ord mind maxd minv None sf s
   \<and> get_pagination_metadata db page limit sb ord mind maxd (Some 0) maxv sf s
       = get_pagination_metadata db page limit sb ord mind maxd None maxv sf s
   \<and> get_pagination_metadata db page limit sb ord mind maxd minv (Some 0) sf s
       = get_pagination_metadata db page limit sb ord mind maxd minv None sf s"
  by (simp add: get_all_def get_paginated_def get_pagination_metadata_def
      build_query_min_value_zero build_query_max_value_zero)

text \<open>
  What the bound would exclude stays in the result: with \<^verbatim>\<open>max_value=0\<close> the rows with
  the values 1 and 5 are both listed.
\<close>

lemma max_value_zero_lists_positive_values:
  "get_all store2 ''created_at'' ''asc'' None None None (Some 0) None None
     = Inr [to_dict row_a, to_dict row_b]"
  by (simp add: model_defs query_defs store_defs)

subsection \<open>Delete, then get by id\<close>

lemma all_q_id:
  assumes "fault db = None"
  shows "all_q db (limit_q (filter_q db_query (Id_eq i)) 1)
           = Inr (take 1 (filter (\<lambda>r. row_id r = i) (table db)))"
  using assms
  by (simp add: all_q_def limit_q_def filter_q_def db_query_def slice_rows_def int64_def)

lemma first_q_id:
  assumes "fault db = None"
  shows "first_q db (filter_q db_query (Id_eq i))
           = Inr (case filter (\<lambda>r. row_id r = i) (table db) of [] \<Rightarrow> None | r # _ \<Rightarrow> Some r)"
  using assms by (simp add: first_q_def all_q_id split: list.splits)

text \<open>
  C9: on a working connection \<^verbatim>\<open>delete(id)\<close> returns, \<^verbatim>\<open>get_by_id(id)\<close> on the store
  it leaves gives \<^verbatim>\<open>None\<close> (not found), and the boolean it returns is true exactly when
  a record with that id was stored before the call.
\<close>

theorem delete_then_get_by_id:
  assumes "fault db = None"
  shows "\<exists>b db'. delete i db = Inr (b, db') \<and> get_by_id i db' = Inr None
           \<and> (b \<longleftrightarrow> (\<exists>r \<in> set (table db). row_id r = i))"
proof (cases "filter (\<lambda>r. row_id r = i) (table db)")
  case Nil
  then have none: "\<not> (\<exists>r \<in> set (table db). row_id r = i)"
    by (auto simp: filter_empty_conv)
  have "delete i db = Inr (False, db)"
    using assms Nil by (simp add: delete_def first_q_id)
  moreover have "get_by_id i db = Inr None"
    using assms Nil by (simp add: get_by_id_def first_q_id)
  ultimately show ?thesis using none by blast
next
  case (Cons r rs)
  then have "r \<in> set (filter (\<lambda>r. row_id r = i) (table db))" by simp
  then have r: "r \<in> set (table db)" "row_id r = i" by simp_all
  let ?db' = "db\<lparr>table := filter (\<lambda>x. row_id x \<noteq> row_id r) (table db)\<rparr>"
  have d: "delete i db = Inr (True, ?db')"
    using assms Cons by (simp add: delete_def first_q_id)
  have f: "fault ?db' = None" using assms by simp
  have "filter (\<lambda>x. row_id x = i) (table ?db') = []"
    using r by (simp add: filter_empty_conv)
  then have "get_by_id i ?db' = Inr None"
    using f by (simp add: get_by_id_def first_q_id del: session.simps)
  then show ?thesis using d r by blast
qed

text \<open>
  The instance for the stored id \<open>a\<close>: delete returns true and leaves the other row,
  and the id is not found afterwards; for the id \<open>zz\<close>, which is not stored, delete
  returns false.
\<close>

theorem delete_then_get_by_id_witness:
  "fault store2 = None
   \<and> delete ''a'' store2 = Inr (True, store2\<lparr>table := [row_b]\<rparr>)
   \<and> get_by_id ''a'' (store2\<lparr>table := [row_b]\<rparr>) = Inr None
   \<and> delete ''zz'' store2 = Inr (False, store2)"
proof -
  have f: "fault store2 = None" by (simp add: store2_def)
  show ?thesis
    using delete_then_get_by_id [OF f, of "''a''"]
    by (simp add: model_defs query_defs store_defs)
qed

subsection \<open>The page of the paginated list\<close>

text \<open>
  C1: the page that \<^verbatim>\<open>get_paginated\<close> returns is not a slice of the filtered, ordered
  result set. With the rows of value 1 and 5 stored and \<^verbatim>\<open>min_value=3\<close>, page 1 of size
  10 holds both rows, while \<^verbatim>\<open>get_all\<close> with the same filter returns the one row of
  value 5 and the metadata counts one record: line 93 of base\_model.py runs a fresh
  \<^verbatim>\<open>db.query(cls)\<close>, not the query built before it.
\<close>

theorem paginated_page_ignores_filters:
  "get_paginated store2 1 10 ''created_at'' ''asc'' None None (Some 3) None None None
     = Inr [to_dict row_a, to_dict row_b]
   \<and> get_all store2 ''created_at'' ''asc'' None None (Some 3) None None None
     = Inr [to_dict row_b]
   \<and> get_pagination_metadata store2 1 10 ''created_at'' ''asc'' None None (Some 3) None None None
     = Inr \<lparr>total_count = 1, total_pages = 1, current_page = 1, page_size = 10\<rparr>
   \<and> [to_dict row_a, to_dict row_b] \<noteq> take 10 (drop ((1 - 1) * 10) [to_dict row_b])"
  by (simp add: model_defs query_defs store_defs)

text \<open>
  C4: a page beyond the last page of the matching records is not always empty. With the
  rows of value 1 and 5 stored, \<^verbatim>\<open>min_value=3\<close> and page size 1, the matching records
  fill one page; the response for page 2 reports \<open>total_pages = 1\<close> and
  \<open>total_records = 1\<close> and yet carries a record as data (the second stored row, taken
  from the unfiltered table by line 93 of base\_model.py).
\<close>

theorem page_beyond_last_not_empty:
  "get_records_paginated
     (2, 1, ''created_at'', ''asc'', None, None, Some 3, None, None, None, store2)
     = Inr (APIBasePaginatedResponse ''All ExampleModel records'' [to_dict row_b] 2 1 1 1)
   \<and> get_pagination_metadata store2 2 1 ''created_at'' ''asc'' None None (Some 3) None None None
     = Inr \<lparr>total_count = 1, total_pages = 1, current_page = 2, page_size = 1\<rparr>
   \<and> get_paginated store2 2 1 ''created_at'' ''asc'' None None (Some 3) None None None
     = Inr [to_dict row_b]"
  by (simp add: route_defs router_defs handle_exceptions_def model_defs query_defs store_defs)

subsection \<open>Sort order on created\_at\<close>

lemma insort_by_key: "insort_by (\<lambda>x y. f x \<le> f y) x xs = insort_key f x xs"
  by (induction xs) simp_all

lemma stable_sort_key: "stable_sort (\<lambda>x y. f x \<le> f y) xs = sort_key f xs"
  unfolding stable_sort_def sort_key_def
  by (induction xs) (simp_all add: insort_by_key)

lemma insort_by_key_desc:
  fixes f :: "'a \<Rightarrow> int"
  shows "insort_by (\<lambda>x y. f y \<le> f x) x xs = insort_key (\<lambda>x. - f x) x xs"
  by (induction xs) simp_all

lemma stable_sort_key_desc:
  fixes f :: "'a \<Rightarrow> int"
  shows "stable_sort (\<lambda>x y. f y \<le> f x) xs = sort_key (\<lambda>x. - f x) xs"
  unfolding stable_sort_def sort_key_def
  by (induction xs) (simp_all add: insort_by_key_desc)




lemma order_rows_created_at_asc: "order_rows Col_created_at False rs = sort_key created_at rs"
  by (simp add: order_rows_def stable_sort_key)

lemma order_rows_created_at_desc:
  "order_rows Col_created_at True rs = sort_key (\<lambda>r. - created_at r) rs"
  by (simp add: order_rows_def stable_sort_key_desc)

text \<open>
  With pairwise distinct keys there is one ascending and one descending arrangement,
  and each is the reverse of the other.
\<close>

lemma sort_key_desc_is_rev:
  fixes f :: "'a \<Rightarrow> int"
  assumes "distinct (map f xs)"
  shows "sort_key (\<lambda>x. - f x) xs = rev (sort_key f xs)"
proof -
  let ?g = "\<lambda>x. - f x"
  let ?A = "sort_key ?g xs" and ?B = "rev (sort_key f xs)"
  have inj: "inj_on ?g (set xs)"
    using assms by (auto simp: distinct_map inj_on_def)
  have dx: "distinct xs" using assms by (simp add: distinct_map)
  have sA: "sorted (map ?g ?A)" by simp
  have "sorted (map f (sort_key f xs))" by simp
  then have sB: "sorted (map ?g ?B)"
    by (simp add: rev_map[symmetric] sorted_wrt_rev sorted_wrt_map)
  have dA: "distinct (map ?g ?A)" using inj dx by (simp add: distinct_map)
  have dB: "distinct (map ?g ?B)" using inj dx by (simp add: distinct_map)
  have "set (map ?g ?A) = set (map ?g ?B)" by simp
  then have "map ?g ?A = map ?g ?B"
    using sA sB dA dB by (intro sorted_distinct_set_unique)
  moreover have "inj_on ?g (set ?A \<union> set ?B)" using inj by simp
  ultimately show ?thesis by (simp only: inj_on_map_eq_map)
qed

lemma build_query_shape:
  assumes "build_query sb ord mind maxd minv maxv sf s = Inr q"
  shows "q_limit q = None \<and> q_offset q = None
         \<and> (\<exists>c. getattr sb = Inr c \<and> q_order q = Some (c, ord = ''desc''))"
  using assms
  by (auto simp: build_query_def Let_def bind_r_Inr_iff db_query_def filter_q_def order_by_def
      split: if_splits)

lemma build_query_reorder:
  assumes "build_query sb ord mind maxd minv maxv sf s = Inr q"
  shows "build_query sb ord' mind maxd minv maxv sf s
           = Inr (q\<lparr>q_order := (case q_order q of Some (c, _) \<Rightarrow> Some (c, ord' = ''desc'')
                                 | None \<Rightarrow> None)\<rparr>)"
  using assms
  by (auto simp: build_query_def Let_def bind_r_Inr_iff db_query_def filter_q_def order_by_def
      split: if_splits)

lemma all_q_ordered:
  assumes "q_limit q = None" "q_offset q = None" "q_order q = Some (c, d)"
  shows "all_q db q =
     (case fault db of
        Some m \<Rightarrow> Inl (SQLAlchemyError m)
      | None \<Rightarrow> bind_r (eval_conds db (q_filters q))
                  (\<lambda>p. Inr (order_rows c d (filter p (table db)))))"
  using assms by (simp add: all_q_def slice_rows_def int64_def split: option.splits)

text \<open>
  With the default sort and any filters: when \<^verbatim>\<open>get_all\<close> returns, the records are
  stored records in ascending order of \<^verbatim>\<open>created_at\<close>, and with pairwise distinct
  \<^verbatim>\<open>created_at\<close> the descending request returns the reverse list.
\<close>

lemma filtered_list_sorted:
  assumes "get_all db ''created_at'' ''asc'' mind maxd minv maxv sf s = Inr asc"
  shows "\<exists>rs. asc = map to_dict rs \<and> mset rs \<subseteq># mset (table db)
           \<and> sorted (map created_at rs)
           \<and> (distinct (map created_at (table db)) \<longrightarrow>
                get_all db ''created_at'' ''desc'' mind maxd minv maxv sf s = Inr (rev asc))"
proof -
  from assms obtain q where q: "build_query ''created_at'' ''asc'' mind maxd minv maxv sf s = Inr q"
    by (auto simp: get_all_def bind_r_Inr_iff)
  have c: "getattr ''created_at'' = Inr Col_created_at" by (simp add: getattr_def)
  have shape: "q_limit q = None" "q_offset q = None" "q_order q = Some (Col_created_at, False)"
    using build_query_shape[OF q] c by auto
  let ?q' = "q\<lparr>q_order := Some (Col_created_at, True)\<rparr>"
  have q': "build_query ''created_at'' ''desc'' mind maxd minv maxv sf s = Inr ?q'"
    using build_query_reorder[OF q, of "''desc''"] shape by simp
  from assms q obtain rs where rs: "all_q db q = Inr rs" "asc = map to_dict rs"
    by (auto simp: get_all_def bind_r_Inr_iff)
  from rs(1) have f: "fault db = None"
    by (auto simp: all_q_ordered[OF shape] split: option.splits)
  from rs(1) f obtain p where p: "eval_conds db (q_filters q) = Inr p"
    and rs_eq: "rs = sort_key created_at (filter p (table db))"
    by (auto simp: all_q_ordered[OF shape] bind_r_Inr_iff order_rows_created_at_asc)
  have sub: "mset rs \<subseteq># mset (table db)"
    by (simp add: rs_eq)
  have srt: "sorted (map created_at rs)" by (simp add: rs_eq)
  have desc: "get_all db ''created_at'' ''desc'' mind maxd minv maxv sf s = Inr (rev asc)"
    if d: "distinct (map created_at (table db))"
  proof -
    have "distinct (map created_at (filter p (table db)))"
      using d by (rule distinct_map_filter)
    then have "sort_key (\<lambda>r. - created_at r) (filter p (table db)) = rev rs"
      unfolding rs_eq by (rule sort_key_desc_is_rev)
    moreover have "all_q db ?q' = Inr (order_rows Col_created_at True (filter p (table db)))"
      using shape f p by (subst all_q_ordered[where c = Col_created_at and d = True]) simp_all
    ultimately have "all_q db ?q' = Inr (rev rs)"
      by (simp add: order_rows_created_at_desc)
    then show ?thesis using q' rs(2) by (simp add: get_all_def rev_map)
  qed
  show ?thesis using rs(2) sub srt desc by blast
qed

lemma get_all_default:
  assumes "fault db = None"
  shows "get_all db ''created_at'' ord None None None None None None
           = Inr (map to_dict (order_rows Col_created_at (ord = ''desc'') (table db)))"
  using assms
  by (simp add: get_all_def build_query_def getattr_def db_query_def order_by_def all_q_def
      slice_rows_def int64_def)

text \<open>
  C7, as amended: on a working connection \<^verbatim>\<open>get_all\<close> with no sort parameters (the
  defaults \<^verbatim>\<open>sort_by="created_at"\<close>, \<^verbatim>\<open>order="asc"\<close>) and no filter returns all
  stored records, each once, in ascending order of \<^verbatim>\<open>created_at\<close>, earliest first;
  and when no two stored records have the same \<^verbatim>\<open>created_at\<close>, the same request with
  \<^verbatim>\<open>order="desc"\<close> returns exactly the reverse list.
\<close>

theorem created_at_order:
  assumes "fault db = None"
  shows "\<exists>rs. mset rs = mset (table db) \<and> sorted (map created_at rs)
           \<and> get_all db ''created_at'' ''asc'' None None None None None None
               = Inr (map to_dict rs)
           \<and> (distinct (map created_at (table db)) \<longrightarrow>
                get_all db ''created_at'' ''desc'' None None None None None None
                  = Inr (rev (map to_dict rs)))"
proof -
  let ?rs = "sort_key created_at (table db)"
  have asc: "get_all db ''created_at'' ''asc'' None None None None None None
               = Inr (map to_dict ?rs)"
    using get_all_default[OF assms, of "''asc''"] by (simp add: order_rows_created_at_asc)
  have desc: "get_all db ''created_at'' ''desc'' None None None None None None
                = Inr (rev (map to_dict ?rs))"
    if d: "distinct (map created_at (table db))"
  proof -
    have "sort_key (\<lambda>r. - created_at r) (table db) = rev ?rs"
      using d by (rule sort_key_desc_is_rev)
    then show ?thesis
      using get_all_default[OF assms, of "''desc''"]
      by (simp add: order_rows_created_at_desc rev_map)
  qed
  have "mset ?rs = mset (table db)" "sorted (map created_at ?rs)" by simp_all
  then show ?thesis using asc desc by blast
qed

lemma get_all_store2_asc:
  "get_all store2 ''created_at'' ''asc'' None None None None None None
     = Inr [to_dict row_a, to_dict row_b]"
  by (simp add: model_defs query_defs store_defs)

text \<open>
  The instance for the store of two records created at the times 1 and 2: ascending
  lists the earlier one first, descending is the reverse.
\<close>

theorem created_at_order_witness:
  "fault store2 = None
   \<and> get_all store2 ''created_at'' ''asc'' None None None None None None
     = Inr [to_dict row_a, to_dict row_b]
   \<and> distinct (map created_at (table store2))
   \<and> get_all store2 ''created_at'' ''desc'' None None None None None None
     = Inr [to_dict row_b, to_dict row_a]"
proof -
  have f: "fault store2 = None" by (simp add: store2_def)
  have d: "distinct (map created_at (table store2))"
    by (simp add: store_defs)
  from created_at_order [OF f] obtain rs where
    asc: "get_all store2 ''created_at'' ''asc'' None None None None None None
            = Inr (map to_dict rs)"
    and desc: "distinct (map created_at (table store2)) \<longrightarrow>
            get_all store2 ''created_at'' ''desc'' None None None None None None
              = Inr (rev (map to_dict rs))"
    by blast
  from asc have "map to_dict rs = [to_dict row_a, to_dict row_b]"
    by (simp add: get_all_store2_asc)
  then have "get_all store2 ''created_at'' ''desc'' None None None None None None
               = Inr (rev [to_dict row_a, to_dict row_b])"
    using desc d by simp
  then show ?thesis using get_all_store2_asc f d by simp
qed

text \<open>
  Without that condition the reversal fails, for records with the same \<^verbatim>\<open>created_at\<close>: for two records
  created at the same time, ascending and descending order give the same list, which
  is not its own reverse.
\<close>

theorem created_at_order_counterexample:
  "get_all store_tie ''created_at'' ''asc'' None None None None None None
     = Inr [to_dict row_b, to_dict row_c]
   \<and> get_all store_tie ''created_at'' ''desc'' None None None None None None
     = Inr [to_dict row_b, to_dict row_c]
   \<and> [to_dict row_b, to_dict row_c] \<noteq> rev [to_dict row_b, to_dict row_c]"
  by (simp add: model_defs query_defs store_defs to_dict_def)

subsection \<open>Search\<close>






















text \<open>
  The other two conditions are needed as well. On an engine that reads a pattern up to
  its first NUL character, the term NUL \<open>zz\<close> finds every record, though it occurs in no
  name. On an engine that folds the ASCII letters only, the search for the word ecole
  with an acute accent on its small e does not find the record named with the capital
  letter.
\<close>

lemma search_nul_term_finds_all:
  "get_all store_lenient ''created_at'' ''asc'' None None None None (Some ''name'')
       (Some [CHR 0x00, CHR ''z'', CHR ''z''])
     = Inr [to_dict row_a, to_dict row_b]"
  by (simp add: model_defs query_defs store_defs ilike_def fold_case_def lower_def
      lower_char_def)

lemma search_accent_not_folded:
  "get_all store_accent ''created_at'' ''asc'' None None None None (Some ''name'')
       (Some ([CHR 0xC3, CHR 0xA9] @ ''cole''))
     = Inr []"
  by (simp add: model_defs query_defs store_defs ilike_def fold_case_def lower_def
      lower_char_def)

section \<open>The failing paths in general\<close>

text \<open>
  On a working connection, every id that no stored record has ends each of the three
  routes with the unhandled \<^verbatim>\<open>TypeError\<close>, whatever else is stored.
\<close>

lemma missing_id_routes:
  assumes "fault db = None" and "\<not> (\<exists>r \<in> set (table db). row_id r = i)"
  shows "get_record_by_id_route (i, db)
           = Inl (TypeError
               ''catching classes that do not inherit from BaseException is not allowed'')"
    and "update_record (i, request, db)
           = Inl (TypeError
               ''catching classes that do not inherit from BaseException is not allowed'')"
    and "delete_record (i, db)
           = Inl (TypeError
               ''catching classes that do not inherit from BaseException is not allowed'')"
proof -
  have "filter (\<lambda>r. row_id r = i) (table db) = []"
    using assms(2) by (auto simp: filter_empty_conv)
  then have g: "get_by_id i db = Inr None"
    using assms(1) by (simp add: get_by_id_def first_q_id)
  show "get_record_by_id_route (i, db)
           = Inl (TypeError
               ''catching classes that do not inherit from BaseException is not allowed'')"
    by (simp add: get_record_by_id_route_def get_record_by_id_def g handle_exceptions_def
        py_raise_def issubclass_def)
  show "update_record (i, request, db)
           = Inl (TypeError
               ''catching classes that do not inherit from BaseException is not allowed'')"
    by (simp add: update_record_def update_existing_record_def g handle_exceptions_def
        py_raise_def issubclass_def)
  show "delete_record (i, db)
           = Inl (TypeError
               ''catching classes that do not inherit from BaseException is not allowed'')"
    by (simp add: delete_record_def delete_existing_record_def g handle_exceptions_def
        py_raise_def issubclass_def)
qed

text \<open>
  Without filters the matching records are the stored records, and a page beyond the
  last one is empty (for a page size and an offset within the 64-bit range).
\<close>

lemma page_beyond_last_empty_without_filters:
  assumes "fault db = None" and "0 < limit"
    and "(int (length (table db)) + limit - 1) div limit < page"
    and "int64 limit" and "int64 ((page - 1) * limit)"
  shows "get_paginated db page limit ''created_at'' ''asc'' None None None None None None
           = Inr []"
proof -
  define n where "n = int (length (table db))"
  define k where "k = (n + limit - 1) div limit"
  have "n + limit - 1 = limit * k + (n + limit - 1) mod limit" by (simp add: k_def)
  moreover have "(n + limit - 1) mod limit < limit" using assms(2) by simp
  ultimately have "n \<le> limit * k" by linarith
  moreover have "k \<le> page - 1" using assms(3) by (simp add: k_def n_def)
  then have "limit * k \<le> limit * (page - 1)" using assms(2) by simp
  ultimately have le: "n \<le> (page - 1) * limit" by (simp add: mult.commute)
  then have "0 \<le> (page - 1) * limit" using n_def by linarith
  moreover have "length (table db) \<le> nat ((page - 1) * limit)"
    using le by (simp add: n_def)
  ultimately show ?thesis
    using assms(1,2,4,5)
    by (simp add: get_paginated_def build_query_def getattr_def all_q_def db_query_def
        limit_q_def offset_q_def slice_rows_def)
qed

end
